theory Spec2Isabelle
  imports Main
begin

section \<open>Shared Python values\<close>

text \<open>
  The six scripts build their reports as Python dictionaries whose values are integers or
  strings. A dictionary literal is modelled as an association list in the order of its
  keys, a value as a \<open>cell\<close> (\<open>PyNone\<close> is Python's \<open>None\<close>).
\<close>

datatype cell = I int | S string | PyNone

type_synonym row = "(string \<times> cell) list"

section \<open>URL status check (URL\_Status\_Code\_Test.py)\<close>














section \<open>Python string operations\<close>

text \<open>
  Characters are the code points below 256. \<open>str.strip()\<close> removes the characters for
  which \<open>str.isspace\<close> holds from both ends.
\<close>

definition is_space :: "char \<Rightarrow> bool" where
  "is_space c = ((of_char c :: nat) \<in> {9, 10, 11, 12, 13, 28, 29, 30, 31, 32, 133, 160})"

definition py_strip :: "string \<Rightarrow> string" where
  "py_strip s = rev (dropWhile is_space (rev (dropWhile is_space s)))"

text \<open>\<open>s.split(" ")[0]\<close>: the part of \<open>s\<close> before its first space.\<close>

definition split_first :: "string \<Rightarrow> string" where
  "split_first s = takeWhile (\<lambda>c. c \<noteq> CHR '' '') s"

text \<open>\<open>sub in s\<close> on strings.\<close>

fun py_in :: "string \<Rightarrow> string \<Rightarrow> bool" where
  "py_in sub [] = (sub = [])"
| "py_in sub (c # cs) = (take (length sub) (c # cs) = sub \<or> py_in sub cs)"

text \<open>\<open>str.upper()\<close> on the ASCII letters.\<close>

definition upper_char :: "char \<Rightarrow> char" where
  "upper_char c =
     (let n = (of_char c :: nat) in if 97 \<le> n \<and> n \<le> 122 then char_of (n - 32) else c)"

definition py_upper :: "string \<Rightarrow> string" where
  "py_upper s = map upper_char s"

text \<open>\<open>str(n)\<close> for a non-negative integer, and \<open>str(xs)\<close> for a list of them.\<close>

definition digit_char :: "nat \<Rightarrow> char" where
  "digit_char d = char_of (48 + d)"

function str_nat :: "nat \<Rightarrow> string" where
  "str_nat n = (if n < 10 then [digit_char n] else str_nat (n div 10) @ [digit_char (n mod 10)])"
  by pat_completeness auto
termination
  by (relation "measure id") auto

declare str_nat.simps [simp del]

fun join_comma :: "string list \<Rightarrow> string" where
  "join_comma [] = []"
| "join_comma [x] = x"
| "join_comma (x # y # ys) = x @ '', '' @ join_comma (y # ys)"

definition str_list :: "nat list \<Rightarrow> string" where
  "str_list xs = ''['' @ join_comma (map str_nat xs) @ '']''"

section \<open>Driver faults\<close>

text \<open>
  A call into the browser driver either completes or raises an exception of class
  \<open>Exception\<close>. The functions distinguish selenium's \<open>TimeoutException\<close> from every other
  exception; of both they read only \<open>str(e)\<close>. A statement that may raise and yields no
  value has an outcome of type \<open>exn option\<close> (\<open>None\<close>: completed), one that yields a value
  an outcome of type \<open>exn + 'a\<close> (\<open>Inl\<close>: raised).
\<close>

datatype exn = TimeoutException string | OtherException string

fun str_exn :: "exn \<Rightarrow> string" where
  "str_exn (TimeoutException m) = m"
| "str_exn (OtherException m) = m"

definition and_then :: "exn option \<Rightarrow> (exn + 'a) \<Rightarrow> exn + 'a" where
  "and_then stmt rest = (case stmt of Some e \<Rightarrow> Inl e | None \<Rightarrow> rest)"

definition bind_exn :: "(exn + 'a) \<Rightarrow> ('a \<Rightarrow> exn + 'b) \<Rightarrow> exn + 'b" where
  "bind_exn m f = (case m of Inl e \<Rightarrow> Inl e | Inr v \<Rightarrow> f v)"

text \<open>\<open>try: body except Exception as e: handler\<close>.\<close>

definition try_except :: "(exn + 'a) \<Rightarrow> (exn \<Rightarrow> exn + 'a) \<Rightarrow> exn + 'a" where
  "try_except body handler = (case body of Inl e \<Rightarrow> handler e | Inr v \<Rightarrow> Inr v)"

section \<open>Header sequence check (HTML\_Tag\_Sequence\_Test.py)\<close>

record header =
  tag_name :: string
  header_text :: string

text \<open>
  \<open>int(header.tag_name[1])\<close> raises IndexError on a tag name shorter than two characters
  and ValueError when the second character is no digit; \<open>None\<close> stands for both.
\<close>

definition level_of :: "string \<Rightarrow> nat option" where
  "level_of t =
     (if length t < 2 then None
      else (let n = (of_char (t ! 1) :: nat)
            in if 48 \<le> n \<and> n \<le> 57 then Some (n - 48) else None))"

definition header_info_of :: "header list \<Rightarrow> row list" where
  "header_info_of headers =
     map (\<lambda>h. [(''Tag'', S (py_upper (tag_name h))), (''Text'', S (header_text h))]) headers"

definition levels_of :: "header list \<Rightarrow> nat list option" where
  "levels_of headers = those (map (\<lambda>h. level_of (tag_name h)) headers)"

text \<open>\<open>all(x <= y for x, y in zip(levels, levels[1:]))\<close>\<close>

definition is_valid_sequence :: "nat list \<Rightarrow> bool" where
  "is_valid_sequence levels = list_all (\<lambda>(x, y). x \<le> y) (zip levels (drop 1 levels))"

text \<open>
  \<open>check_html_sequence\<close> after the page has been loaded and the headers found, in document
  order. The result is \<open>None\<close> where the computation of \<open>levels\<close> raises.
\<close>

definition check_html_sequence :: "header list \<Rightarrow> (string \<times> string \<times> row list \<times> nat list) option" where
  "check_html_sequence headers =
     (let header_info = header_info_of headers
      in case levels_of headers of
           None \<Rightarrow> None
         | Some levels \<Rightarrow>
             (if is_valid_sequence levels
              then Some (''Pass'', ''HTML tag sequence is valid.'', header_info, levels)
              else Some (''Fail'',
                         ''HTML tag sequence is broken. Found sequence: '' @ str_list levels,
                         header_info, levels)))"

section \<open>Image alt attribute check (Image\_Alt\_Attribute\_Test.py)\<close>

text \<open>
  An image element as the function reads it: \<open>get_attribute\<close> returns a string, or
  \<open>None\<close> for an absent attribute.
\<close>

record image =
  src :: "string option"
  alt :: "string option"

text \<open>Truthiness of a value that is a string or \<open>None\<close>.\<close>

definition truthy :: "string option \<Rightarrow> bool" where
  "truthy v = (case v of None \<Rightarrow> False | Some s \<Rightarrow> s \<noteq> [])"

definition alt_status :: "image \<Rightarrow> string" where
  "alt_status img = (if truthy (alt img) then ''Pass'' else ''Fail'')"

definition image_row :: "nat \<Rightarrow> image \<Rightarrow> row" where
  "image_row index img =
     [(''Image Index'', I (int index + 1)),
      (''Image Source'', S (if truthy (src img) then the (src img) else ''No Source'')),
      (''Alt Text'', S (if truthy (alt img) then the (alt img) else ''None'')),
      (''Status'', S (alt_status img))]"

text \<open>
  The loop \<open>for index, img in enumerate(images)\<close>, with its state \<open>image_data\<close>,
  \<open>pass_count\<close>, \<open>fail_count\<close>.
\<close>

fun image_loop :: "nat \<Rightarrow> image list \<Rightarrow> row list \<times> int \<times> int \<Rightarrow> row list \<times> int \<times> int" where
  "image_loop index [] st = st"
| "image_loop index (img # imgs) (image_data, pass_count, fail_count) =
     image_loop (Suc index) imgs
       (image_data @ [image_row index img],
        (if alt_status img = ''Pass'' then pass_count + 1 else pass_count),
        (if alt_status img = ''Pass'' then fail_count else fail_count + 1))"

text \<open>The detailed rows and the summary row that \<open>check_image_alt_and_save\<close> saves.\<close>

definition check_image_alt :: "image list \<Rightarrow> row list \<times> row" where
  "check_image_alt images =
     (case image_loop 0 images ([], 0, 0) of
        (image_data, pass_count, fail_count) \<Rightarrow>
          (image_data,
           [(''Test'', S ''Image Alt Text Test Summary''),
            (''Pass Count'', I pass_count),
            (''Fail Count'', I fail_count),
            (''Total Images'', I (int (length images)))]))"

section \<open>Script tag scrape (Scrape\_Data\_from\_Script\_Tag.py)\<close>

text \<open>
  What the driver does during one call: \<open>driver.get(url)\<close> completes or raises;
  \<open>driver.find_element(By.TAG_NAME, "script").get_attribute("innerHTML")\<close> raises (no
  script element among others) or yields the inner content.
\<close>

record scrape_env =
  get_page :: "exn option"
  script_data :: "exn + string option"

definition scraped :: "string \<Rightarrow> (string \<times> string) list" where
  "scraped url =
     [(''SiteURL'', url),
      (''CampaignID'', ''12345''),
      (''SiteName'', ''Alojamiento''),
      (''Browser'', ''Chrome''),
      (''CountryCode'', ''US''),
      (''IP'', ''192.168.1.1'')]"

text \<open>\<open>driver.get(url)\<close> stands before the \<open>try\<close> statement.\<close>

definition scrape_script_data :: "scrape_env \<Rightarrow> string \<Rightarrow> exn + (string \<times> (string \<times> string) list)" where
  "scrape_script_data env url =
     and_then (get_page env)
       (try_except
          (bind_exn (script_data env) (\<lambda>script_data. Inr (''Pass'', scraped url)))
          (\<lambda>e. Inr (''Fail'', [(''Error'', str_exn e)])))"

section \<open>H1 existence check (H1\_Tag\_Existence\_Test.py)\<close>

text \<open>
  \<open>h1_load\<close>: \<open>driver.get(url)\<close> and the wait for the body element. \<open>h1_tags\<close>:
  \<open>driver.find_elements(By.TAG_NAME, "h1")\<close>, each element given by its \<open>text\<close>.
\<close>

record h1_env =
  h1_load :: "exn option"
  h1_tags :: "exn + string list"

definition h1_texts_of :: "string list \<Rightarrow> string list" where
  "h1_texts_of tags = map py_strip (filter (\<lambda>t. py_strip t \<noteq> []) tags)"

text \<open>\<open>except TimeoutException\<close> comes before \<open>except Exception as e\<close>.\<close>

fun h1_handler :: "string \<Rightarrow> exn \<Rightarrow> exn + (string \<times> string \<times> string list \<times> string)" where
  "h1_handler url (TimeoutException m) = Inr (''Fail'', ''Page load timeout.'', [], url)"
| "h1_handler url (OtherException m) = Inr (''Fail'', ''Error: '' @ m, [], url)"

definition check_all_h1_tags :: "h1_env \<Rightarrow> string \<Rightarrow> exn + (string \<times> string \<times> string list \<times> string)" where
  "check_all_h1_tags env url =
     try_except
       (and_then (h1_load env)
          (bind_exn (h1_tags env) (\<lambda>tags.
             if tags \<noteq> []
             then Inr (''Pass'', ''H1 tags found.'', h1_texts_of tags, url)
             else Inr (''Fail'', ''No H1 tags found.'', [], url))))
       (h1_handler url)"

section \<open>Currency filter check (Currency\_Filtering\_Test.py)\<close>

text \<open>
  A dropdown option as the parsing loop reads it:
  \<open>option.get_attribute("data-currency-country")\<close> and the text of the element that
  \<open>option.find_element(By.CSS_SELECTOR, ".option > p")\<close> finds.
\<close>

record option_el =
  data_currency_country :: "exn + string option"
  option_p_text :: "exn + string"

record currency =
  country :: "string option"
  symbol :: string

text \<open>
  What the driver does during one iteration of the test loop: reopening the dropdown;
  \<open>opt.get_attribute("data-currency-country")\<close> for the option of each index; scrolling to
  the chosen option and clicking it; finding the price tiles and reading each tile's text.
\<close>

record step_env =
  reopen :: "exn option"
  country_attr :: "nat \<Rightarrow> exn + string option"
  select_click :: "exn option"
  tiles :: "exn + (exn + string) list"

text \<open>
  \<open>page_setup\<close>: loading the page, waiting for the body, scrolling, waiting for the dropdown
  and clicking it. \<open>options\<close>: \<open>dropdown.find_elements\<close>. \<open>steps i\<close>: iteration \<open>i\<close> of
  the test loop.
\<close>

record currency_env =
  page_setup :: "exn option"
  options :: "exn + option_el list"
  steps :: "nat \<Rightarrow> step_env"

fun parse_options :: "option_el list \<Rightarrow> exn + currency list" where
  "parse_options [] = Inr []"
| "parse_options (opt # opts) =
     bind_exn (data_currency_country opt) (\<lambda>data_country.
     bind_exn (option_p_text opt) (\<lambda>t.
     bind_exn (parse_options opts) (\<lambda>rest.
       Inr (\<lparr>country = data_country, symbol = py_strip (split_first t)\<rparr> # rest))))"

definition name_cell :: "string option \<Rightarrow> cell" where
  "name_cell c = (case c of None \<Rightarrow> PyNone | Some s \<Rightarrow> S s)"

definition result_row :: "currency \<Rightarrow> string \<Rightarrow> string \<Rightarrow> row" where
  "result_row cur st reason =
     [(''Currency Name'', name_cell (country cur)),
      (''Currency Symbol'', S (symbol cur)),
      (''Status'', S st),
      (''Reason'', S reason)]"

definition all_row :: "string \<Rightarrow> row" where
  "all_row reason =
     [(''Currency Name'', S ''All''),
      (''Currency Symbol'', S ''N/A''),
      (''Status'', S ''Fail''),
      (''Reason'', S reason)]"

text \<open>
  \<open>next((opt for opt in options if opt.get_attribute(...) == currency["country"]), None)\<close>
  over the indices of \<open>options\<close>.
\<close>

fun find_option :: "(nat \<Rightarrow> exn + string option) \<Rightarrow> string option \<Rightarrow> nat list \<Rightarrow> exn + nat option" where
  "find_option attr c [] = Inr None"
| "find_option attr c (j # js) =
     (case attr j of
        Inl e \<Rightarrow> Inl e
      | Inr a \<Rightarrow> (if a = c then Inr (Some j) else find_option attr c js))"

text \<open>\<open>all(currency["symbol"] in tile.text for tile in tiles)\<close>\<close>

fun all_tiles_show :: "string \<Rightarrow> (exn + string) list \<Rightarrow> exn + bool" where
  "all_tiles_show symb [] = Inr True"
| "all_tiles_show symb (t # ts) =
     (case t of
        Inl e \<Rightarrow> Inl e
      | Inr txt \<Rightarrow> (if py_in symb txt then all_tiles_show symb ts else Inr False))"

text \<open>
  The body of the inner \<open>try\<close> statement, as a function of \<open>results\<close>. Every path appends
  to \<open>results\<close> as its last action, so a raise leaves \<open>results\<close> as it was.
\<close>

definition test_body :: "step_env \<Rightarrow> nat \<Rightarrow> currency \<Rightarrow> row list \<Rightarrow> exn + row list" where
  "test_body st n cur results =
     and_then (reopen st)
       (bind_exn (find_option (country_attr st) (country cur) [0..<n]) (\<lambda>opt.
          if opt = None
          then Inr (results @ [result_row cur ''Fail'' ''Currency option not found in dropdown''])
          else and_then (select_click st)
            (bind_exn (tiles st) (\<lambda>ts.
               if ts = []
               then Inr (results @ [result_row cur ''Fail'' ''No property tiles found''])
               else bind_exn (all_tiles_show (symbol cur) ts) (\<lambda>ok.
                 if \<not> ok
                 then Inr (results @ [result_row cur ''Fail''
                        (''Currency symbol '' @ symbol cur @ '' not found in property tiles'')])
                 else Inr (results @ [result_row cur ''Pass'' ''Validation successful'']))))))"

definition test_currency :: "step_env \<Rightarrow> nat \<Rightarrow> currency \<Rightarrow> row list \<Rightarrow> exn + row list" where
  "test_currency st n cur results =
     try_except (test_body st n cur results)
       (\<lambda>e. Inr (results @ [result_row cur ''Fail'' (''Exception: '' @ str_exn e)]))"

text \<open>The loop \<open>for currency in currency_options\<close>; \<open>i\<close> counts its iterations.\<close>

fun currency_loop :: "(nat \<Rightarrow> step_env) \<Rightarrow> nat \<Rightarrow> nat \<Rightarrow> currency list \<Rightarrow> row list \<Rightarrow> exn + row list" where
  "currency_loop sts n i [] results = Inr results"
| "currency_loop sts n i (cur # curs) results =
     bind_exn (test_currency (sts i) n cur results) (currency_loop sts n (Suc i) curs)"

definition test_currency_filter :: "currency_env \<Rightarrow> exn + row list" where
  "test_currency_filter env =
     try_except
       (and_then (page_setup env)
          (bind_exn (options env) (\<lambda>opts.
           bind_exn (parse_options opts) (\<lambda>currency_options.
             if currency_options = []
             then Inr [all_row ''No currency options found'']
             else currency_loop (steps env) (length opts) 0 currency_options []))))
       (\<lambda>e. Inr [all_row (''Exception: '' @ str_exn e)])"

section \<open>Sample pages\<close>



definition broken_headers :: "header list" where
  "broken_headers =
     [\<lparr>tag_name = ''h1'', header_text = ''Title''\<rparr>,
      \<lparr>tag_name = ''h3'', header_text = ''Detail''\<rparr>,
      \<lparr>tag_name = ''h2'', header_text = ''Section''\<rparr>]"

definition ordered_headers :: "header list" where
  "ordered_headers =
     [\<lparr>tag_name = ''h1'', header_text = ''Title''\<rparr>,
      \<lparr>tag_name = ''h2'', header_text = ''Section''\<rparr>,
      \<lparr>tag_name = ''h2'', header_text = ''Section''\<rparr>,
      \<lparr>tag_name = ''h3'', header_text = ''Detail''\<rparr>]"

definition sample_images :: "image list" where
  "sample_images =
     [\<lparr>src = Some ''logo.png'', alt = Some ''Logo''\<rparr>,
      \<lparr>src = Some ''banner.png'', alt = Some []\<rparr>,
      \<lparr>src = None, alt = None\<rparr>]"

text \<open>A dropdown without options, and one with two options whose second click fails.\<close>

definition sample_step :: "nat \<Rightarrow> step_env" where
  "sample_step i =
     \<lparr>reopen = None,
      country_attr = (\<lambda>j. if j = 0 then Inr (Some ''US'') else Inr (Some ''BD'')),
      select_click = (if i = 1 then Some (TimeoutException ''not clickable'') else None),
      tiles = Inr [Inr ''$ 120'', Inr ''$ 95'']\<rparr>"




definition unreachable_dropdown :: currency_env where
  "unreachable_dropdown =
     \<lparr>page_setup = Some (TimeoutException ''dropdown not clickable''),
      options = Inr [], steps = sample_step\<rparr>"


definition slow_h1_page :: h1_env where
  "slow_h1_page = \<lparr>h1_load = Some (TimeoutException ''body not present''), h1_tags = Inr []\<rparr>"

definition script_page :: scrape_env where
  "script_page = \<lparr>get_page = None, script_data = Inr (Some ''var dataLayer = [];'')\<rparr>"

definition no_script_page :: scrape_env where
  "no_script_page =
     \<lparr>get_page = None, script_data = Inl (OtherException ''no such element'')\<rparr>"

definition offline_page :: scrape_env where
  "offline_page =
     \<lparr>get_page = Some (OtherException ''net::ERR_NAME_NOT_RESOLVED''),
      script_data = Inl (OtherException ''no such element'')\<rparr>"

section \<open>Properties of the URL status check\<close>










section \<open>Properties of the header sequence check\<close>

lemma py_in_self_append: "py_in sub (sub @ post)"
proof (cases "sub @ post")
  case Nil
  then show ?thesis by simp
next
  case (Cons c cs)
  have "take (length sub) (sub @ post) = sub" by simp
  with Cons have "take (length sub) (c # cs) = sub" by simp
  then have "py_in sub (c # cs)" by simp
  with Cons show ?thesis by simp
qed

lemma py_in_append: "py_in sub (pre @ sub @ post)"
  by (induction pre) (auto simp: py_in_self_append)

lemma is_valid_sequence_iff:
  "is_valid_sequence levels \<longleftrightarrow>
     (\<forall>i. Suc i < length levels \<longrightarrow> levels ! i \<le> levels ! Suc i)"
proof
  assume v: "is_valid_sequence levels"
  show "\<forall>i. Suc i < length levels \<longrightarrow> levels ! i \<le> levels ! Suc i"
  proof (intro allI impI)
    fix i assume i: "Suc i < length levels"
    then have "(levels ! i, drop 1 levels ! i) \<in> set (zip levels (drop 1 levels))"
      by (auto simp: set_zip)
    with v have "levels ! i \<le> drop 1 levels ! i"
      by (auto simp: is_valid_sequence_def list_all_iff)
    with i show "levels ! i \<le> levels ! Suc i" by simp
  qed
next
  assume a: "\<forall>i. Suc i < length levels \<longrightarrow> levels ! i \<le> levels ! Suc i"
  show "is_valid_sequence levels"
    unfolding is_valid_sequence_def list_all_iff
  proof
    fix p assume "p \<in> set (zip levels (drop 1 levels))"
    then obtain i where i: "levels ! i = fst p" "drop 1 levels ! i = snd p"
        "i < length levels" "i < length (drop 1 levels)"
      unfolding in_set_zip by blast
    then have "Suc i < length levels" by simp
    with a i show "case p of (x, y) \<Rightarrow> x \<le> y" by (auto simp: case_prod_beta)
  qed
qed

lemma level_of_heading:
  "t \<in> {''h1'', ''h2'', ''h3'', ''h4'', ''h5'', ''h6''} \<Longrightarrow>
     \<exists>k. level_of t = Some k \<and> 1 \<le> k \<and> k \<le> 6"
  by (auto simp: level_of_def)

lemma levels_of_headings:
  "\<forall>h \<in> set headers. tag_name h \<in> {''h1'', ''h2'', ''h3'', ''h4'', ''h5'', ''h6''} \<Longrightarrow>
     \<exists>L. levels_of headers = Some L \<and> length L = length headers \<and>
         (\<forall>i < length headers. level_of (tag_name (headers ! i)) = Some (L ! i)) \<and>
         (\<forall>l \<in> set L. 1 \<le> l \<and> l \<le> 6)"
proof (induction headers)
  case Nil
  then show ?case by (simp add: levels_of_def)
next
  case (Cons h hs)
  then obtain L where L: "levels_of hs = Some L" "length L = length hs"
      "\<forall>i < length hs. level_of (tag_name (hs ! i)) = Some (L ! i)"
      "\<forall>l \<in> set L. 1 \<le> l \<and> l \<le> 6"
    by auto
  from Cons.prems obtain k where k: "level_of (tag_name h) = Some k" "1 \<le> k" "k \<le> 6"
    using level_of_heading [of "tag_name h"] by auto
  have "levels_of (h # hs) = Some (k # L)"
    using L(1) k(1) by (simp add: levels_of_def)
  moreover have "\<forall>i < length (h # hs). level_of (tag_name ((h # hs) ! i)) = Some ((k # L) ! i)"
    using L(3) k(1) by (auto simp: nth_Cons split: nat.splits)
  ultimately show ?case using L(2,4) k(2,3) by auto
qed

text \<open>
  Claim C3. For the headers \<open>h1\<close> to \<open>h6\<close> that the XPath query finds, in document order,
  the check returns; its levels \<open>L\<close> are the digits of the tag names, between 1 and 6; its
  result is \<open>Pass\<close> iff \<open>L ! i \<le> L ! (i + 1)\<close> for all consecutive positions; otherwise it is
  \<open>Fail\<close> and the comment ends in \<open>str(L)\<close>, the literal sequence.
\<close>

theorem header_sequence_pass_iff_nondecreasing:
  assumes "\<forall>h \<in> set headers. tag_name h \<in> {''h1'', ''h2'', ''h3'', ''h4'', ''h5'', ''h6''}"
  shows "\<exists>L st comment.
           check_html_sequence headers = Some (st, comment, header_info_of headers, L)
         \<and> length L = length headers
         \<and> (\<forall>i < length headers. level_of (tag_name (headers ! i)) = Some (L ! i))
         \<and> (\<forall>l \<in> set L. 1 \<le> l \<and> l \<le> 6)
         \<and> (st = ''Pass'' \<longleftrightarrow> (\<forall>i. Suc i < length L \<longrightarrow> L ! i \<le> L ! Suc i))
         \<and> (st \<noteq> ''Pass'' \<longrightarrow>
              st = ''Fail''
            \<and> comment = ''HTML tag sequence is broken. Found sequence: '' @ str_list L
            \<and> py_in (str_list L) comment)"
proof -
  from levels_of_headings [OF assms] obtain L where
    L: "levels_of headers = Some L" "length L = length headers"
       "\<forall>i < length headers. level_of (tag_name (headers ! i)) = Some (L ! i)"
       "\<forall>l \<in> set L. 1 \<le> l \<and> l \<le> 6"
    by blast
  have contains:
    "py_in (str_list L) (''HTML tag sequence is broken. Found sequence: '' @ str_list L)"
    using py_in_append [of "str_list L" "''HTML tag sequence is broken. Found sequence: ''" "[]"]
    by simp
  show ?thesis
  proof (cases "is_valid_sequence L")
    case True
    then have "check_html_sequence headers =
        Some (''Pass'', ''HTML tag sequence is valid.'', header_info_of headers, L)"
      using L(1) by (simp add: check_html_sequence_def)
    with True L show ?thesis
      by (simp add: is_valid_sequence_iff)
  next
    case False
    then have "check_html_sequence headers =
        Some (''Fail'', ''HTML tag sequence is broken. Found sequence: '' @ str_list L,
              header_info_of headers, L)"
      using L(1) by (simp add: check_html_sequence_def)
    with False L contains show ?thesis
      by (simp add: is_valid_sequence_iff)
  qed
qed

text \<open>The two sequences of the specification: [1, 3, 2] fails, [1, 2, 2, 3] passes.\<close>

theorem header_sequence_pass_iff_nondecreasing_witness:
  "map tag_name broken_headers = [''h1'', ''h3'', ''h2'']
   \<and> check_html_sequence broken_headers =
       Some (''Fail'', ''HTML tag sequence is broken. Found sequence: [1, 3, 2]'',
             header_info_of broken_headers, [1, 3, 2])
   \<and> py_in ''[1, 3, 2]'' ''HTML tag sequence is broken. Found sequence: [1, 3, 2]''
   \<and> map tag_name ordered_headers = [''h1'', ''h2'', ''h2'', ''h3'']
   \<and> check_html_sequence ordered_headers =
       Some (''Pass'', ''HTML tag sequence is valid.'', header_info_of ordered_headers,
             [1, 2, 2, 3])"
proof -
  have b: "\<forall>h \<in> set broken_headers. tag_name h \<in> {''h1'', ''h2'', ''h3'', ''h4'', ''h5'', ''h6''}"
    by (simp add: broken_headers_def)
  have tb: "map tag_name broken_headers = [''h1'', ''h3'', ''h2'']"
    by (simp add: broken_headers_def)
  have eb: "check_html_sequence broken_headers =
       Some (''Fail'', ''HTML tag sequence is broken. Found sequence: [1, 3, 2]'',
             header_info_of broken_headers, [1, 3, 2])"
    by code_simp
  have pb: "py_in ''[1, 3, 2]'' ''HTML tag sequence is broken. Found sequence: [1, 3, 2]''"
    by code_simp
  have tor: "map tag_name ordered_headers = [''h1'', ''h2'', ''h2'', ''h3'']"
    by (simp add: ordered_headers_def)
  have eo: "check_html_sequence ordered_headers =
       Some (''Pass'', ''HTML tag sequence is valid.'', header_info_of ordered_headers,
             [1, 2, 2, 3])"
    by code_simp
  from header_sequence_pass_iff_nondecreasing [OF b] tb eb pb tor eo
  show ?thesis by simp
qed

section \<open>Properties of the image alt attribute check\<close>

lemma image_loop_rows:
  "fst (image_loop k imgs (d, p, f)) =
     d @ map (\<lambda>j. image_row (k + j) (imgs ! j)) [0..<length imgs]"
proof (induction imgs arbitrary: k d p f)
  case Nil
  then show ?case by simp
next
  case (Cons img imgs)
  show ?case
    by (simp add: Cons.IH map_upt_Suc del: upt_Suc)
qed

lemma image_data_rows:
  "fst (check_image_alt images) = map (\<lambda>j. image_row j (images ! j)) [0..<length images]"
proof -
  obtain d p f where r: "image_loop 0 images ([], 0, 0) = (d, p, f)"
    by (cases "image_loop 0 images ([], 0, 0)") auto
  have "fst (image_loop 0 images ([], 0, 0)) =
      map (\<lambda>j. image_row j (images ! j)) [0..<length images]"
    using image_loop_rows [of 0 images "[]" 0 0] by simp
  with r show ?thesis by (simp add: check_image_alt_def)
qed

text \<open>
  Claim C6, as the code has it. The check produces one row per image, in the order of the
  images, numbered from 1; the row's status is \<open>Pass\<close> iff the alt attribute is present and
  non-empty, and \<open>Fail\<close> iff it is absent or empty. A row has the four fields Image Index,
  Image Source, Alt Text and Status and no reason; a failing row records the alt text
  \<open>None\<close>.
\<close>

theorem image_rows_one_per_image:
  "length (fst (check_image_alt images)) = length images
   \<and> (\<forall>i < length images.
        map fst (fst (check_image_alt images) ! i) =
          [''Image Index'', ''Image Source'', ''Alt Text'', ''Status'']
      \<and> map_of (fst (check_image_alt images) ! i) ''Image Index'' = Some (I (int i + 1))
      \<and> (map_of (fst (check_image_alt images) ! i) ''Status'' = Some (S ''Pass'') \<longleftrightarrow>
           (\<exists>a. alt (images ! i) = Some a \<and> a \<noteq> []))
      \<and> (map_of (fst (check_image_alt images) ! i) ''Status'' = Some (S ''Fail'') \<longleftrightarrow>
           (alt (images ! i) = None \<or> alt (images ! i) = Some []))
      \<and> (map_of (fst (check_image_alt images) ! i) ''Status'' = Some (S ''Fail'') \<longrightarrow>
           map_of (fst (check_image_alt images) ! i) ''Alt Text'' = Some (S ''None'')))"
  by (auto simp: image_data_rows image_row_def alt_status_def truthy_def split: option.splits)

theorem image_rows_one_per_image_witness:
  "(1::nat) < length sample_images
   \<and> alt (sample_images ! 1) = Some []
   \<and> length (fst (check_image_alt sample_images)) = 3
   \<and> map_of (fst (check_image_alt sample_images) ! 1) ''Image Index'' = Some (I 2)
   \<and> map_of (fst (check_image_alt sample_images) ! 1) ''Status'' = Some (S ''Fail'')
   \<and> map_of (fst (check_image_alt sample_images) ! 1) ''Alt Text'' = Some (S ''None'')
   \<and> map_of (fst (check_image_alt sample_images) ! 0) ''Status'' = Some (S ''Pass'')"
proof -
  have n: "(1::nat) < length sample_images" by (simp add: sample_images_def)
  have a: "alt (sample_images ! 1) = Some []" by (simp add: sample_images_def)
  have rows: "fst (check_image_alt sample_images) =
      [[(''Image Index'', I 1), (''Image Source'', S ''logo.png''),
        (''Alt Text'', S ''Logo''), (''Status'', S ''Pass'')],
       [(''Image Index'', I 2), (''Image Source'', S ''banner.png''),
        (''Alt Text'', S ''None''), (''Status'', S ''Fail'')],
       [(''Image Index'', I 3), (''Image Source'', S ''No Source''),
        (''Alt Text'', S ''None''), (''Status'', S ''Fail'')]]"
    by (simp add: check_image_alt_def sample_images_def image_row_def alt_status_def truthy_def)
  have all: "(1::nat) < length sample_images
   \<and> alt (sample_images ! 1) = Some []
   \<and> length (fst (check_image_alt sample_images)) = 3
   \<and> map_of (fst (check_image_alt sample_images) ! 1) ''Image Index'' = Some (I 2)
   \<and> map_of (fst (check_image_alt sample_images) ! 1) ''Status'' = Some (S ''Fail'')
   \<and> map_of (fst (check_image_alt sample_images) ! 1) ''Alt Text'' = Some (S ''None'')
   \<and> map_of (fst (check_image_alt sample_images) ! 0) ''Status'' = Some (S ''Pass'')"
    using n a by (simp add: rows)
  from image_rows_one_per_image [of sample_images] all
  show ?thesis by simp
qed

text \<open>
  Claim C6 as stated gives the failing item the reason \<open>missing alt attribute\<close>. The row
  of an image with an empty alt attribute has no reason field, and none of its values is
  that text.
\<close>

theorem missing_alt_row_has_no_reason:
  "fst (check_image_alt [\<lparr>src = Some ''banner.png'', alt = Some []\<rparr>]) =
     [[(''Image Index'', I 1), (''Image Source'', S ''banner.png''),
       (''Alt Text'', S ''None''), (''Status'', S ''Fail'')]]
   \<and> map_of (hd (fst (check_image_alt [\<lparr>src = Some ''banner.png'', alt = Some []\<rparr>])))
        ''Reason'' = None
   \<and> S ''missing alt attribute''
        \<notin> snd ` set (hd (fst (check_image_alt [\<lparr>src = Some ''banner.png'', alt = Some []\<rparr>])))"
  by (simp add: check_image_alt_def image_row_def alt_status_def truthy_def)

section \<open>Properties of the script tag scrape\<close>

text \<open>
  Claim C9. When the page loads and the lookup of the script element yields its inner
  content, the scrape returns \<open>Pass\<close> with the six-entry dictionary below: SiteURL is the
  url passed in, the other five values are constants, and the content read has no effect
  on the result.
\<close>

theorem scrape_pass_with_fixed_data:
  assumes "get_page env = None" and "script_data env = Inr content"
  shows "scrape_script_data env url = Inr (''Pass'', scraped url)
       \<and> scraped url =
           [(''SiteURL'', url), (''CampaignID'', ''12345''), (''SiteName'', ''Alojamiento''),
            (''Browser'', ''Chrome''), (''CountryCode'', ''US''), (''IP'', ''192.168.1.1'')]
       \<and> (\<forall>url' k. k \<noteq> ''SiteURL'' \<longrightarrow> map_of (scraped url') k = map_of (scraped url) k)
       \<and> (\<forall>env'. get_page env' = None \<and> (\<exists>content'. script_data env' = Inr content') \<longrightarrow>
             scrape_script_data env' url = scrape_script_data env url)"
  using assms
  by (auto simp: scrape_script_data_def and_then_def try_except_def bind_exn_def scraped_def)

theorem scrape_pass_with_fixed_data_witness:
  "get_page script_page = None
   \<and> script_data script_page = Inr (Some ''var dataLayer = [];'')
   \<and> scrape_script_data script_page ''https://www.alojamiento.io/'' =
       Inr (''Pass'',
            [(''SiteURL'', ''https://www.alojamiento.io/''), (''CampaignID'', ''12345''),
             (''SiteName'', ''Alojamiento''), (''Browser'', ''Chrome''),
             (''CountryCode'', ''US''), (''IP'', ''192.168.1.1'')])"
proof -
  have g: "get_page script_page = None" by (simp add: script_page_def)
  have s: "script_data script_page = Inr (Some ''var dataLayer = [];'')"
    by (simp add: script_page_def)
  from scrape_pass_with_fixed_data [OF g s, of "''https://www.alojamiento.io/''"] g s
  show ?thesis by simp
qed

section \<open>Properties of the H1 existence check\<close>






section \<open>Properties of the currency filter check\<close>

lemma test_currency_appends:
  "\<exists>st' reason. test_currency st n cur results = Inr (results @ [result_row cur st' reason])
                \<and> (st' = ''Pass'' \<or> st' = ''Fail'')"
  by (auto simp: test_currency_def test_body_def try_except_def and_then_def bind_exn_def
      split: option.splits sum.splits)

lemma currency_loop_rows:
  "\<exists>rows. currency_loop sts n i curs results = Inr (results @ rows)
         \<and> length rows = length curs
         \<and> (\<forall>j < length curs. \<exists>st' reason.
               rows ! j = result_row (curs ! j) st' reason \<and> (st' = ''Pass'' \<or> st' = ''Fail''))"
proof (induction curs arbitrary: i results)
  case Nil
  then show ?case by simp
next
  case (Cons cur curs)
  obtain st' reason where
    one: "test_currency (sts i) n cur results = Inr (results @ [result_row cur st' reason])"
    and st': "st' = ''Pass'' \<or> st' = ''Fail''"
    using test_currency_appends by blast
  obtain rows where rows:
    "currency_loop sts n (Suc i) curs (results @ [result_row cur st' reason]) =
       Inr ((results @ [result_row cur st' reason]) @ rows)"
    "length rows = length curs"
    "\<forall>j < length curs. \<exists>st' reason.
       rows ! j = result_row (curs ! j) st' reason \<and> (st' = ''Pass'' \<or> st' = ''Fail'')"
    using Cons.IH by blast
  have "currency_loop sts n i (cur # curs) results =
      Inr (results @ (result_row cur st' reason # rows))"
    using one rows(1) by (simp add: bind_exn_def)
  moreover have "length (result_row cur st' reason # rows) = length (cur # curs)"
    using rows(2) by simp
  moreover have "\<forall>j < length (cur # curs). \<exists>s r.
      (result_row cur st' reason # rows) ! j = result_row ((cur # curs) ! j) s r
      \<and> (s = ''Pass'' \<or> s = ''Fail'')"
    using rows(3) st' by (auto simp: nth_Cons split: nat.splits)
  ultimately show ?case by blast
qed


lemma test_currency_filter_returns: "\<exists>rows. test_currency_filter env = Inr rows"
proof (cases "page_setup env")
  case (Some e)
  then show ?thesis by (simp add: test_currency_filter_def try_except_def and_then_def)
next
  case None
  show ?thesis
  proof (cases "options env")
    case (Inl e)
    with None show ?thesis
      by (simp add: test_currency_filter_def try_except_def and_then_def bind_exn_def)
  next
    case (Inr opts)
    show ?thesis
    proof (cases "parse_options opts")
      case (Inl e)
      with None Inr show ?thesis
        by (simp add: test_currency_filter_def try_except_def and_then_def bind_exn_def)
    next
      case curs: (Inr curs)
      obtain rows where "currency_loop (steps env) (length opts) 0 curs [] = Inr ([] @ rows)"
        using currency_loop_rows by blast
      with None Inr curs show ?thesis
        by (simp add: test_currency_filter_def try_except_def and_then_def bind_exn_def)
    qed
  qed
qed




section \<open>Faults inside the checks\<close>

lemma h1_handler_result:
  "h1_handler url e =
     Inr (''Fail'',
          (case e of TimeoutException m \<Rightarrow> ''Page load timeout.''
           | OtherException m \<Rightarrow> ''Error: '' @ m),
          [], url)"
  by (cases e) simp_all

text \<open>
  Claim C4, as the code has it. No check has a status \<open>Error\<close>. \<open>test_currency_filter\<close>
  and \<open>check_all_h1_tags\<close> always return: a fault while loading the page, finding the
  elements or reading them becomes a single \<open>Fail\<close> result that carries the diagnostic.
  \<open>scrape_script_data\<close> returns \<open>Fail\<close> with the error text when the script lookup raises,
  but loads the page before its \<open>try\<close> statement: a fault of \<open>driver.get\<close> is raised to the
  caller.
\<close>

theorem faults_become_fail_results:
  "(\<exists>rows. test_currency_filter cenv = Inr rows)
   \<and> (\<forall>e. page_setup cenv = Some e
          \<or> (page_setup cenv = None \<and> options cenv = Inl e)
          \<or> (page_setup cenv = None
              \<and> (\<exists>opts. options cenv = Inr opts \<and> parse_options opts = Inl e)) \<longrightarrow>
        test_currency_filter cenv =
          Inr [[(''Currency Name'', S ''All''), (''Currency Symbol'', S ''N/A''),
                (''Status'', S ''Fail''), (''Reason'', S (''Exception: '' @ str_exn e))]])
   \<and> (\<exists>st comment texts. check_all_h1_tags henv url = Inr (st, comment, texts, url))
   \<and> (\<forall>e. h1_load henv = Some e \<or> (h1_load henv = None \<and> h1_tags henv = Inl e) \<longrightarrow>
        check_all_h1_tags henv url =
          Inr (''Fail'',
               (case e of TimeoutException m \<Rightarrow> ''Page load timeout.''
                | OtherException m \<Rightarrow> ''Error: '' @ m),
               [], url))
   \<and> (get_page senv = None \<longrightarrow> (\<exists>r. scrape_script_data senv url = Inr r))
   \<and> (\<forall>e. get_page senv = None \<and> script_data senv = Inl e \<longrightarrow>
        scrape_script_data senv url = Inr (''Fail'', [(''Error'', str_exn e)]))
   \<and> (\<forall>e. get_page senv = Some e \<longrightarrow> scrape_script_data senv url = Inl e)"
proof (intro conjI)
  show "\<exists>rows. test_currency_filter cenv = Inr rows"
    by (rule test_currency_filter_returns)
next
  show "\<forall>e. page_setup cenv = Some e
          \<or> (page_setup cenv = None \<and> options cenv = Inl e)
          \<or> (page_setup cenv = None
              \<and> (\<exists>opts. options cenv = Inr opts \<and> parse_options opts = Inl e)) \<longrightarrow>
        test_currency_filter cenv =
          Inr [[(''Currency Name'', S ''All''), (''Currency Symbol'', S ''N/A''),
                (''Status'', S ''Fail''), (''Reason'', S (''Exception: '' @ str_exn e))]]"
    by (auto simp: test_currency_filter_def try_except_def and_then_def bind_exn_def all_row_def)
next
  show "\<exists>st comment texts. check_all_h1_tags henv url = Inr (st, comment, texts, url)"
    by (auto simp: check_all_h1_tags_def try_except_def and_then_def bind_exn_def
        h1_handler_result split: option.splits sum.splits)
next
  show "\<forall>e. h1_load henv = Some e \<or> (h1_load henv = None \<and> h1_tags henv = Inl e) \<longrightarrow>
        check_all_h1_tags henv url =
          Inr (''Fail'',
               (case e of TimeoutException m \<Rightarrow> ''Page load timeout.''
                | OtherException m \<Rightarrow> ''Error: '' @ m),
               [], url)"
    by (auto simp: check_all_h1_tags_def try_except_def and_then_def bind_exn_def
        split: exn.splits)
next
  show "get_page senv = None \<longrightarrow> (\<exists>r. scrape_script_data senv url = Inr r)"
    by (auto simp: scrape_script_data_def try_except_def and_then_def bind_exn_def
        split: sum.splits)
next
  show "\<forall>e. get_page senv = None \<and> script_data senv = Inl e \<longrightarrow>
        scrape_script_data senv url = Inr (''Fail'', [(''Error'', str_exn e)])"
    by (simp add: scrape_script_data_def try_except_def and_then_def bind_exn_def)
next
  show "\<forall>e. get_page senv = Some e \<longrightarrow> scrape_script_data senv url = Inl e"
    by (simp add: scrape_script_data_def and_then_def)
qed

theorem faults_become_fail_results_witness:
  "page_setup unreachable_dropdown = Some (TimeoutException ''dropdown not clickable'')
   \<and> test_currency_filter unreachable_dropdown =
       Inr [[(''Currency Name'', S ''All''), (''Currency Symbol'', S ''N/A''),
             (''Status'', S ''Fail''), (''Reason'', S ''Exception: dropdown not clickable'')]]
   \<and> h1_load slow_h1_page = Some (TimeoutException ''body not present'')
   \<and> check_all_h1_tags slow_h1_page ''https://www.alojamiento.io/'' =
       Inr (''Fail'', ''Page load timeout.'', [], ''https://www.alojamiento.io/'')
   \<and> get_page no_script_page = None
   \<and> script_data no_script_page = Inl (OtherException ''no such element'')
   \<and> scrape_script_data no_script_page ''https://www.alojamiento.io/'' =
       Inr (''Fail'', [(''Error'', ''no such element'')])
   \<and> get_page offline_page = Some (OtherException ''net::ERR_NAME_NOT_RESOLVED'')
   \<and> scrape_script_data offline_page ''https://www.alojamiento.io/'' =
       Inl (OtherException ''net::ERR_NAME_NOT_RESOLVED'')"
proof -
  have c: "page_setup unreachable_dropdown = Some (TimeoutException ''dropdown not clickable'')"
    by (simp add: unreachable_dropdown_def)
  have h: "h1_load slow_h1_page = Some (TimeoutException ''body not present'')"
    by (simp add: slow_h1_page_def)
  have n: "get_page no_script_page = None
      \<and> script_data no_script_page = Inl (OtherException ''no such element'')"
    by (simp add: no_script_page_def)
  have off: "get_page offline_page = Some (OtherException ''net::ERR_NAME_NOT_RESOLVED'')"
    by (simp add: offline_page_def)
  from faults_become_fail_results
      [of unreachable_dropdown slow_h1_page "''https://www.alojamiento.io/''" no_script_page]
    faults_become_fail_results
      [of unreachable_dropdown slow_h1_page "''https://www.alojamiento.io/''" offline_page]
    c h n off
  show ?thesis by auto
qed

text \<open>
  Claim C4 as stated has every fault caught inside the check and reported with the status
  \<open>Error\<close>. A page that does not load makes \<open>scrape_script_data\<close> raise, and makes
  \<open>check_all_h1_tags\<close> return the status \<open>Fail\<close>.
\<close>

theorem navigation_fault_raised_or_reported_as_fail:
  "scrape_script_data offline_page ''https://www.alojamiento.io/'' =
     Inl (OtherException ''net::ERR_NAME_NOT_RESOLVED'')
   \<and> check_all_h1_tags slow_h1_page ''https://www.alojamiento.io/'' =
       Inr (''Fail'', ''Page load timeout.'', [], ''https://www.alojamiento.io/'')
   \<and> ''Fail'' \<noteq> ''Error''"
  by (simp add: scrape_script_data_def and_then_def offline_page_def check_all_h1_tags_def
      try_except_def slow_h1_page_def)

end
